theory Spec2Isabelle
  imports Complex_Main
begin

section \<open>JavaScript numbers\<close>

text \<open>
  The engine computes with JavaScript numbers. A number is modelled as an exact real or
  one of the three non-finite values. Finite arithmetic is exact (no rounding and no
  overflow), and there is a single zero, which behaves as \<open>+0\<close> when it divides.
  The non-finite cases follow IEEE 754: \<open>0/0\<close>, \<open>Infinity - Infinity\<close> and
  \<open>0 * Infinity\<close> are \<open>NaN\<close>, and \<open>NaN\<close> is absorbing.
\<close>

datatype jsnum = Fin real | PInf | NInf | NaN

definition inf_of_sign :: "real \<Rightarrow> jsnum" where
  "inf_of_sign s = (if s = 0 then NaN else if 0 < s then PInf else NInf)"

fun jneg :: "jsnum \<Rightarrow> jsnum" where
  "jneg (Fin x) = Fin (- x)"
| "jneg PInf = NInf"
| "jneg NInf = PInf"
| "jneg NaN = NaN"

fun jadd :: "jsnum \<Rightarrow> jsnum \<Rightarrow> jsnum" where
  "jadd (Fin x) (Fin y) = Fin (x + y)"
| "jadd (Fin x) PInf = PInf"
| "jadd (Fin x) NInf = NInf"
| "jadd PInf (Fin y) = PInf"
| "jadd NInf (Fin y) = NInf"
| "jadd PInf PInf = PInf"
| "jadd NInf NInf = NInf"
| "jadd PInf NInf = NaN"
| "jadd NInf PInf = NaN"
| "jadd NaN y = NaN"
| "jadd x NaN = NaN"

definition jsub :: "jsnum \<Rightarrow> jsnum \<Rightarrow> jsnum" where
  "jsub x y = jadd x (jneg y)"

fun jmul :: "jsnum \<Rightarrow> jsnum \<Rightarrow> jsnum" where
  "jmul (Fin x) (Fin y) = Fin (x * y)"
| "jmul (Fin x) PInf = inf_of_sign x"
| "jmul (Fin x) NInf = inf_of_sign (- x)"
| "jmul PInf (Fin y) = inf_of_sign y"
| "jmul NInf (Fin y) = inf_of_sign (- y)"
| "jmul PInf PInf = PInf"
| "jmul NInf NInf = PInf"
| "jmul PInf NInf = NInf"
| "jmul NInf PInf = NInf"
| "jmul NaN y = NaN"
| "jmul x NaN = NaN"

fun jdiv :: "jsnum \<Rightarrow> jsnum \<Rightarrow> jsnum" where
  "jdiv (Fin x) (Fin y) = (if y = 0 then inf_of_sign x else Fin (x / y))"
| "jdiv (Fin x) PInf = Fin 0"
| "jdiv (Fin x) NInf = Fin 0"
| "jdiv PInf (Fin y) = (if y < 0 then NInf else PInf)"
| "jdiv NInf (Fin y) = (if y < 0 then PInf else NInf)"
| "jdiv PInf PInf = NaN"
| "jdiv NInf NInf = NaN"
| "jdiv PInf NInf = NaN"
| "jdiv NInf PInf = NaN"
| "jdiv NaN y = NaN"
| "jdiv x NaN = NaN"

text \<open>\<open>Math.abs\<close>, \<open>Math.sqrt\<close>, \<open>Math.max\<close>, \<open>Math.pow\<close> with a
  non-negative integer exponent, the comparison \<open><\<close>, \<open>isFinite\<close> and \<open>isNaN\<close>.\<close>

fun jabs :: "jsnum \<Rightarrow> jsnum" where
  "jabs (Fin x) = Fin \<bar>x\<bar>"
| "jabs PInf = PInf"
| "jabs NInf = PInf"
| "jabs NaN = NaN"

fun jsqrt :: "jsnum \<Rightarrow> jsnum" where
  "jsqrt (Fin x) = (if x < 0 then NaN else Fin (sqrt x))"
| "jsqrt PInf = PInf"
| "jsqrt NInf = NaN"
| "jsqrt NaN = NaN"

fun jlt :: "jsnum \<Rightarrow> jsnum \<Rightarrow> bool" where
  "jlt (Fin x) (Fin y) = (x < y)"
| "jlt (Fin x) PInf = True"
| "jlt NInf (Fin y) = True"
| "jlt NInf PInf = True"
| "jlt x y = False"

fun jmax :: "jsnum \<Rightarrow> jsnum \<Rightarrow> jsnum" where
  "jmax NaN y = NaN"
| "jmax x NaN = NaN"
| "jmax x y = (if jlt x y then y else x)"

fun isFinite :: "jsnum \<Rightarrow> bool" where
  "isFinite (Fin x) = True"
| "isFinite x = False"

fun isNaN :: "jsnum \<Rightarrow> bool" where
  "isNaN NaN = True"
| "isNaN x = False"

primrec jpow :: "jsnum \<Rightarrow> nat \<Rightarrow> jsnum" where
  "jpow x 0 = Fin 1"
| "jpow x (Suc k) = jmul x (jpow x k)"

text \<open>An interval count or a loop index used as a number.\<close>

definition jnum :: "nat \<Rightarrow> jsnum" where
  "jnum n = Fin (real n)"

text \<open>Truthiness of a number in a condition: \<open>0\<close> and \<open>NaN\<close> are falsy.\<close>

fun truthy :: "jsnum \<Rightarrow> bool" where
  "truthy (Fin x) = (x \<noteq> 0)"
| "truthy NaN = False"
| "truthy x = True"

section \<open>Exceptions and loops\<close>

text \<open>A thrown \<open>Error\<close> carries its message. A computation returns \<open>Inl\<close> of the
  error it threw or \<open>Inr\<close> of its value.\<close>

datatype js_error = Error string

fun message :: "js_error \<Rightarrow> string" where
  "message (Error m) = m"

definition bnd :: "js_error + 'a \<Rightarrow> ('a \<Rightarrow> js_error + 'b) \<Rightarrow> js_error + 'b" where
  "bnd m k = (case m of Inl e \<Rightarrow> Inl e | Inr v \<Rightarrow> k v)"

text \<open>A \<open>for\<close> loop over a list of index values, threading the loop's variables.\<close>

primrec for_each :: "('i \<Rightarrow> 's \<Rightarrow> js_error + 's) \<Rightarrow> 'i list \<Rightarrow> 's \<Rightarrow> js_error + 's" where
  "for_each body [] s = Inr s"
| "for_each body (i # rest) s = bnd (body i s) (for_each body rest)"

text \<open>The integrand: a callable of one number that returns a number or throws.\<close>

type_synonym func = "jsnum \<Rightarrow> js_error + jsnum"

section \<open>Quadrature rules (IntegrationMethods.jsx)\<close>

subsection \<open>Simpson 1/3\<close>

definition simpsonRule :: "func \<Rightarrow> jsnum \<Rightarrow> jsnum \<Rightarrow> nat \<Rightarrow> js_error + jsnum" where
  "simpsonRule func a b n =
    (let h = jdiv (jsub b a) (jnum n) in
     bnd (func a) (\<lambda>fa.
     bnd (func b) (\<lambda>fb.
     bnd (for_each
            (\<lambda>i sum. let x = jadd a (jmul (jnum i) h) in
               bnd (func x) (\<lambda>y. Inr (jadd sum (jmul (Fin (if i mod 2 = 0 then 2 else 4)) y))))
            [1..<n] (jadd fa fb)) (\<lambda>sum.
     Inr (jdiv (jmul sum h) (Fin 3))))))"

definition integrate_simpson13 :: "func \<Rightarrow> jsnum \<Rightarrow> jsnum \<Rightarrow> nat \<Rightarrow> js_error + jsnum" where
  "integrate_simpson13 func a b n =
    (if n mod 2 = 0 then simpsonRule func a b n
     else
       (let h = jdiv (jsub b a) (jnum n);
            splitPoint = jsub b h in
        bnd (simpsonRule func a splitPoint (n - 1)) (\<lambda>simpsonPart.
        bnd (func splitPoint) (\<lambda>fs.
        bnd (func b) (\<lambda>fb.
        let trapPart = jmul (jdiv h (Fin 2)) (jadd fs fb) in
        Inr (jadd simpsonPart trapPart))))))"

subsection \<open>Trapezoidal and Midpoint\<close>

definition integrate_trapezoidal :: "func \<Rightarrow> jsnum \<Rightarrow> jsnum \<Rightarrow> nat \<Rightarrow> js_error + jsnum" where
  "integrate_trapezoidal func a b n =
    (let h = jdiv (jsub b a) (jnum n) in
     bnd (func a) (\<lambda>fa.
     bnd (func b) (\<lambda>fb.
     bnd (for_each
            (\<lambda>i sum. bnd (func (jadd a (jmul (jnum i) h))) (\<lambda>y. Inr (jadd sum y)))
            [1..<n] (jdiv (jadd fa fb) (Fin 2))) (\<lambda>sum.
     Inr (jmul sum h)))))"

definition integrate_midpoint :: "func \<Rightarrow> jsnum \<Rightarrow> jsnum \<Rightarrow> nat \<Rightarrow> js_error + jsnum" where
  "integrate_midpoint func a b n =
    (let h = jdiv (jsub b a) (jnum n) in
     bnd (for_each
            (\<lambda>i sum. let midpoint = jadd a (jmul (jadd (jnum i) (Fin 0.5)) h) in
               bnd (func midpoint) (\<lambda>y. Inr (jadd sum y)))
            [0..<n] (Fin 0)) (\<lambda>sum.
     Inr (jmul sum h)))"

subsection \<open>Simpson 3/8\<close>

definition integrate_simpson38 :: "func \<Rightarrow> jsnum \<Rightarrow> jsnum \<Rightarrow> nat \<Rightarrow> js_error + jsnum" where
  "integrate_simpson38 func a b n =
    (if n < 3 then Inl (Error ''Simpson's 3/8 rule requires at least 3 intervals.'')
     else
       (let remainder = n mod 3;
            total0 = Fin 0;
            h = jdiv (jsub b a) (jnum n);
            mainN = n - remainder in
        bnd (if 3 \<le> mainN then
               bnd (func a) (\<lambda>fa.
               bnd (func (jadd a (jmul (jnum mainN) h))) (\<lambda>fm.
               bnd (for_each
                      (\<lambda>i sum. let x = jadd a (jmul (jnum i) h) in
                         if i mod 3 = 0
                         then bnd (func x) (\<lambda>y. Inr (jadd sum (jmul (Fin 2) y)))
                         else bnd (func x) (\<lambda>y. Inr (jadd sum (jmul (Fin 3) y))))
                      [1..<mainN] (jadd fa fm)) (\<lambda>sum.
               Inr (jadd total0 (jmul (jdiv (jmul (Fin 3) h) (Fin 8)) sum)))))
             else Inr total0) (\<lambda>total1.
        if 0 < remainder then
          (let remA = jadd a (jmul (jnum mainN) h);
               remB = b in
           bnd (func remA) (\<lambda>fra.
           bnd (func remB) (\<lambda>frb.
           bnd (for_each
                  (\<lambda>i remSum. bnd (func (jadd remA (jmul (jnum i) h))) (\<lambda>y. Inr (jadd remSum y)))
                  [1..<remainder] (jdiv (jadd fra frb) (Fin 2))) (\<lambda>remSum.
           Inr (jadd total1 (jmul remSum h))))))
        else Inr total1)))"

subsection \<open>Monte Carlo\<close>

text \<open>A drawn sample \<open>{x, y}\<close>. The instance keeps the samples of its last
  \<open>integrate\<close> call in \<open>lastSamples\<close>, which the constructor leaves undefined.\<close>

record sample =
  sample_x :: jsnum
  sample_y :: jsnum

text \<open>The values returned by \<open>Math.random()\<close> during one call are a parameter:
  \<open>random i\<close> is the draw of loop iteration \<open>i\<close>.\<close>

definition integrate_montecarlo ::
  "(nat \<Rightarrow> jsnum) \<Rightarrow> func \<Rightarrow> jsnum \<Rightarrow> jsnum \<Rightarrow> nat \<Rightarrow> js_error + (jsnum \<times> sample list)" where
  "integrate_montecarlo random func a b n =
    bnd (for_each
           (\<lambda>i (sum, samples). let x = jadd a (jmul (random i) (jsub b a)) in
              bnd (func x) (\<lambda>y. Inr (jadd sum y, samples @ [\<lparr>sample_x = x, sample_y = y\<rparr>])))
           [0..<n] (Fin 0, [])) (\<lambda>(sum, samples).
    Inr (jmul (jdiv sum (jnum n)) (jsub b a), samples))"

definition getErrorEstimate_montecarlo ::
  "sample list option \<Rightarrow> func \<Rightarrow> jsnum \<Rightarrow> jsnum \<Rightarrow> nat \<Rightarrow> jsnum option" where
  "getErrorEstimate_montecarlo lastSamples func a b n =
    (case lastSamples of
       None \<Rightarrow> None
     | Some samples \<Rightarrow>
        (let mean = jdiv (foldl (\<lambda>sum s. jadd sum (sample_y s)) (Fin 0) samples) (jnum n);
             variance = jdiv (foldl (\<lambda>sum s. jadd sum (jpow (jsub (sample_y s) mean) 2)) (Fin 0) samples)
                             (jsub (jnum n) (Fin 1));
             standardError = jmul (jsqrt (jdiv variance (jnum n))) (jsub b a)
         in Some (jmul (Fin 1.96) standardError)))"

subsection \<open>Derivative bounds and error estimates of the deterministic rules\<close>

text \<open>
  The loop \<open>for (let x = x0; x < bound; x += h)\<close> of the derivative estimators. It
  need not end for every \<open>h\<close>, so it returns an option: \<open>None\<close> is a loop that runs
  forever. \<open>step x m\<close> is the loop body, from the running maximum to the new one.
\<close>

partial_function (option) derivative_loop ::
  "(jsnum \<Rightarrow> jsnum \<Rightarrow> jsnum) \<Rightarrow> jsnum \<Rightarrow> jsnum \<Rightarrow> jsnum \<Rightarrow> jsnum \<Rightarrow> jsnum option" where
  "derivative_loop step h bound x m =
    (if jlt x bound then derivative_loop step h bound (jadd x h) (step x m) else Some m)"

text \<open>The body's \<open>try\<close> block skips a point where the integrand throws, and the
  \<open>isFinite\<close> test skips a non-finite difference quotient.\<close>

definition keep_max :: "jsnum \<Rightarrow> js_error + jsnum \<Rightarrow> jsnum" where
  "keep_max m r = (case r of Inl e \<Rightarrow> m | Inr d \<Rightarrow> if isFinite d then jmax m d else m)"

definition secondDeriv_at :: "func \<Rightarrow> jsnum \<Rightarrow> jsnum \<Rightarrow> js_error + jsnum" where
  "secondDeriv_at func h x =
    bnd (func (jadd x h)) (\<lambda>f1.
    bnd (func x) (\<lambda>f0.
    bnd (func (jsub x h)) (\<lambda>f2.
    Inr (jabs (jdiv (jadd (jsub f1 (jmul (Fin 2) f0)) f2) (jmul h h))))))"

definition fourthDeriv_at :: "func \<Rightarrow> jsnum \<Rightarrow> jsnum \<Rightarrow> js_error + jsnum" where
  "fourthDeriv_at func h x =
    bnd (func (jadd x (jmul (Fin 2) h))) (\<lambda>f2.
    bnd (func (jadd x h)) (\<lambda>f1.
    bnd (func x) (\<lambda>f0.
    bnd (func (jsub x h)) (\<lambda>g1.
    bnd (func (jsub x (jmul (Fin 2) h))) (\<lambda>g2.
    Inr (jabs (jdiv
      (jadd (jsub (jadd (jsub f2 (jmul (Fin 4) f1)) (jmul (Fin 6) f0)) (jmul (Fin 4) g1)) g2)
      (jpow h 4))))))))"

text \<open>\<open>estimateSecondDerivative\<close> is written three times in the source, with 1000 grid
  steps in the Trapezoidal and Midpoint classes and 100 in the Simpson 1/3 class; the
  number of steps is the first argument here.\<close>

definition estimateSecondDerivative :: "nat \<Rightarrow> func \<Rightarrow> jsnum \<Rightarrow> jsnum \<Rightarrow> jsnum option" where
  "estimateSecondDerivative steps func a b =
    (let h = jdiv (jsub b a) (jnum steps) in
     derivative_loop (\<lambda>x m. keep_max m (secondDeriv_at func h x)) h (jsub b h) (jadd a h) (Fin 0))"

definition estimateFourthDerivative :: "func \<Rightarrow> jsnum \<Rightarrow> jsnum \<Rightarrow> jsnum option" where
  "estimateFourthDerivative func a b =
    (let h = jdiv (jsub b a) (Fin 1000) in
     derivative_loop (\<lambda>x m. keep_max m (fourthDeriv_at func h x)) h
       (jsub b (jmul (Fin 2) h)) (jadd a (jmul (Fin 2) h)) (Fin 0))"

definition getErrorEstimate_trapezoidal :: "func \<Rightarrow> jsnum \<Rightarrow> jsnum \<Rightarrow> nat \<Rightarrow> jsnum option" where
  "getErrorEstimate_trapezoidal func a b n =
    map_option (\<lambda>secondDerivApprox.
        jabs (jdiv (jmul (jpow (jsub b a) 3) secondDerivApprox)
                   (jmul (jmul (Fin 12) (jnum n)) (jnum n))))
      (estimateSecondDerivative 1000 func a b)"

definition getErrorEstimate_midpoint :: "func \<Rightarrow> jsnum \<Rightarrow> jsnum \<Rightarrow> nat \<Rightarrow> jsnum option" where
  "getErrorEstimate_midpoint func a b n =
    map_option (\<lambda>secondDerivApprox.
        jabs (jdiv (jmul (jpow (jsub b a) 3) secondDerivApprox)
                   (jmul (jmul (Fin 24) (jnum n)) (jnum n))))
      (estimateSecondDerivative 1000 func a b)"

definition getErrorEstimate_simpson13 :: "func \<Rightarrow> jsnum \<Rightarrow> jsnum \<Rightarrow> nat \<Rightarrow> jsnum option" where
  "getErrorEstimate_simpson13 func a b n =
    (if n mod 2 = 0 then
       map_option (\<lambda>fourthDerivApprox.
           jabs (jdiv (jmul (jpow (jsub b a) 5) fourthDerivApprox)
                      (jmul (Fin 180) (jpow (jnum n) 4))))
         (estimateFourthDerivative func a b)
     else
       (let h = jdiv (jsub b a) (jnum n);
            splitPoint = jsub b h in
        case estimateFourthDerivative func a splitPoint of
          None \<Rightarrow> None
        | Some fourth \<Rightarrow>
           (let simpsonError = jdiv (jmul fourth (jpow (jsub splitPoint a) 5))
                                    (jmul (Fin 180) (jpow (jsub (jnum n) (Fin 1)) 4)) in
            case estimateSecondDerivative 100 func splitPoint b of
              None \<Rightarrow> None
            | Some second \<Rightarrow>
               (let trapError = jdiv (jmul second (jpow h 2)) (Fin 12) in
                Some (jadd (jabs simpsonError) (jabs trapError))))))"

subsection \<open>Rule instances and the registry\<close>

text \<open>
  An instance of one of the rule classes: the fields set by the base constructor, and
  \<open>lastSamples\<close>, which only \<open>MonteCarloIntegration.integrate\<close> assigns. The class
  decides which \<open>integrate\<close> and \<open>getErrorEstimate\<close> a call reaches.
\<close>

datatype rule_class =
  TrapezoidalRule | SimpsonsRule1By3 | MidpointRule | MonteCarloIntegration | SimpsonsRule3By8

record method_obj =
  cls :: rule_class
  name :: string
  description :: string
  color :: string
  lastSamples :: "sample list option"

definition new_TrapezoidalRule :: method_obj where
  "new_TrapezoidalRule = \<lparr>cls = TrapezoidalRule, name = ''Trapezoidal Rule'',
     description = ''Approximates area using trapezoids'', color = ''#3b82f6'',
     lastSamples = None\<rparr>"

definition new_SimpsonsRule1By3 :: method_obj where
  "new_SimpsonsRule1By3 = \<lparr>cls = SimpsonsRule1By3, name = ''Simpson's 1/3'',
     description = ''Uses quadratic polynomials for better accuracy'', color = ''#ef4444'',
     lastSamples = None\<rparr>"

definition new_MidpointRule :: method_obj where
  "new_MidpointRule = \<lparr>cls = MidpointRule, name = ''Midpoint Rule'',
     description = ''Uses rectangle with height at midpoint'', color = ''#10b981'',
     lastSamples = None\<rparr>"

definition new_MonteCarloIntegration :: method_obj where
  "new_MonteCarloIntegration = \<lparr>cls = MonteCarloIntegration, name = ''Monte Carlo'',
     description = ''Uses random sampling for integration'', color = ''#f59e0b'',
     lastSamples = None\<rparr>"

definition new_SimpsonsRule3By8 :: method_obj where
  "new_SimpsonsRule3By8 = \<lparr>cls = SimpsonsRule3By8, name = ''Simpson's 3/8'',
     description = ''Uses cubic polynomials, best for intervals multiple of 3'',
     color = ''#a21caf'', lastSamples = None\<rparr>"

text \<open>\<open>method.integrate(func, a, b, n)\<close>: the value and the instance after the call.\<close>

definition integrate ::
  "(nat \<Rightarrow> jsnum) \<Rightarrow> method_obj \<Rightarrow> func \<Rightarrow> jsnum \<Rightarrow> jsnum \<Rightarrow> nat \<Rightarrow> js_error + (jsnum \<times> method_obj)" where
  "integrate random m f a b n =
    (case cls m of
       TrapezoidalRule \<Rightarrow> bnd (integrate_trapezoidal f a b n) (\<lambda>v. Inr (v, m))
     | SimpsonsRule1By3 \<Rightarrow> bnd (integrate_simpson13 f a b n) (\<lambda>v. Inr (v, m))
     | MidpointRule \<Rightarrow> bnd (integrate_midpoint f a b n) (\<lambda>v. Inr (v, m))
     | SimpsonsRule3By8 \<Rightarrow> bnd (integrate_simpson38 f a b n) (\<lambda>v. Inr (v, m))
     | MonteCarloIntegration \<Rightarrow>
         bnd (integrate_montecarlo random f a b n) (\<lambda>(v, samples).
           Inr (v, m\<lparr>lastSamples := Some samples\<rparr>)))"

text \<open>\<open>method.getErrorEstimate(func, a, b, n)\<close>. The inner \<open>None\<close> is \<open>null\<close>;
  the outer \<open>None\<close> is a derivative loop that does not end. \<open>SimpsonsRule3By8\<close>
  inherits the base class's method, which returns \<open>null\<close>.\<close>

definition getErrorEstimate ::
  "method_obj \<Rightarrow> func \<Rightarrow> jsnum \<Rightarrow> jsnum \<Rightarrow> nat \<Rightarrow> jsnum option option" where
  "getErrorEstimate m f a b n =
    (case cls m of
       TrapezoidalRule \<Rightarrow> map_option Some (getErrorEstimate_trapezoidal f a b n)
     | SimpsonsRule1By3 \<Rightarrow> map_option Some (getErrorEstimate_simpson13 f a b n)
     | MidpointRule \<Rightarrow> map_option Some (getErrorEstimate_midpoint f a b n)
     | SimpsonsRule3By8 \<Rightarrow> Some None
     | MonteCarloIntegration \<Rightarrow> Some (getErrorEstimate_montecarlo (lastSamples m) f a b n))"

text \<open>The registry. The source lists \<open>new MidpointRule()\<close> in a comment only.\<close>

definition integrationMethods :: "method_obj list" where
  "integrationMethods =
    [new_TrapezoidalRule, new_SimpsonsRule1By3, new_SimpsonsRule3By8, new_MonteCarloIntegration]"

text \<open>\<open>integrationMethods.find(m => m.name === methodName)\<close>\<close>

definition find_method :: "string \<Rightarrow> method_obj option" where
  "find_method methodName = find (\<lambda>m. name m = methodName) integrationMethods"

section \<open>Predefined functions (Constants.jsx)\<close>

text \<open>The transcendental functions of \<open>Math\<close> on the number model.\<close>

fun jsin :: "jsnum \<Rightarrow> jsnum" where
  "jsin (Fin x) = Fin (sin x)"
| "jsin x = NaN"

fun jcos :: "jsnum \<Rightarrow> jsnum" where
  "jcos (Fin x) = Fin (cos x)"
| "jcos x = NaN"

fun jexp :: "jsnum \<Rightarrow> jsnum" where
  "jexp (Fin x) = Fin (exp x)"
| "jexp PInf = PInf"
| "jexp NInf = Fin 0"
| "jexp NaN = NaN"

fun jlog :: "jsnum \<Rightarrow> jsnum" where
  "jlog (Fin x) = (if x < 0 then NaN else if x = 0 then NInf else Fin (ln x))"
| "jlog PInf = PInf"
| "jlog x = NaN"

fun jatan :: "jsnum \<Rightarrow> jsnum" where
  "jatan (Fin x) = Fin (arctan x)"
| "jatan PInf = Fin (pi / 2)"
| "jatan NInf = Fin (- pi / 2)"
| "jatan NaN = NaN"

fun jasin :: "jsnum \<Rightarrow> jsnum" where
  "jasin (Fin x) = (if - 1 \<le> x \<and> x \<le> 1 then Fin (arcsin x) else NaN)"
| "jasin x = NaN"

text \<open>An entry of \<open>predefinedFunctions\<close>: the integrand \<open>func\<close> and the closed form
  \<open>exact(a, b)\<close> of its integral. The \<open>display\<close> and \<open>description\<close> labels are
  not part of the computation.\<close>

record predefined =
  pf_func :: func
  pf_exact :: "jsnum \<Rightarrow> jsnum \<Rightarrow> jsnum"

definition predefinedFunctions :: "string \<Rightarrow> predefined option" where
  "predefinedFunctions = map_of
    [(''x^2'', \<lparr>pf_func = (\<lambda>x. Inr (jmul x x)),
        pf_exact = (\<lambda>a b. jdiv (jsub (jpow b 3) (jpow a 3)) (Fin 3))\<rparr>),
     (''sin(x)'', \<lparr>pf_func = (\<lambda>x. Inr (jsin x)),
        pf_exact = (\<lambda>a b. jadd (jneg (jcos b)) (jcos a))\<rparr>),
     (''e^x'', \<lparr>pf_func = (\<lambda>x. Inr (jexp x)),
        pf_exact = (\<lambda>a b. jsub (jexp b) (jexp a))\<rparr>),
     (''1/x'', \<lparr>pf_func = (\<lambda>x. Inr (jdiv (Fin 1) x)),
        pf_exact = (\<lambda>a b. jsub (jlog b) (jlog a))\<rparr>),
     (''x^3'', \<lparr>pf_func = (\<lambda>x. Inr (jmul (jmul x x) x)),
        pf_exact = (\<lambda>a b. jdiv (jsub (jpow b 4) (jpow a 4)) (Fin 4))\<rparr>),
     (''x^4 - 2x^2 + 3'',
      \<lparr>pf_func = (\<lambda>x. Inr (jadd (jsub (jpow x 4) (jmul (Fin 2) (jpow x 2))) (Fin 3))),
        pf_exact = (\<lambda>a b.
          jadd (jsub (jdiv (jsub (jpow b 5) (jpow a 5)) (Fin 5))
                     (jdiv (jmul (Fin 2) (jsub (jpow b 3) (jpow a 3))) (Fin 3)))
               (jmul (Fin 3) (jsub b a)))\<rparr>),
     (''x*sin(x)'', \<lparr>pf_func = (\<lambda>x. Inr (jmul x (jsin x))),
        pf_exact = (\<lambda>a b.
          jsub (jadd (jadd (jmul (jneg b) (jcos b)) (jsin b)) (jmul a (jcos a))) (jsin a))\<rparr>),
     (''x^2*e^x'', \<lparr>pf_func = (\<lambda>x. Inr (jmul (jmul x x) (jexp x))),
        pf_exact = (\<lambda>a b.
          let F = (\<lambda>x. jmul (jexp x) (jadd (jsub (jmul x x) (jmul (Fin 2) x)) (Fin 2)))
          in jsub (F b) (F a))\<rparr>),
     (''1/(1+x^2)'', \<lparr>pf_func = (\<lambda>x. Inr (jdiv (Fin 1) (jadd (Fin 1) (jmul x x)))),
        pf_exact = (\<lambda>a b. jsub (jatan b) (jatan a))\<rparr>),
     (''sqrt(1-x^2)'', \<lparr>pf_func = (\<lambda>x. Inr (jsqrt (jsub (Fin 1) (jmul x x)))),
        pf_exact = (\<lambda>a b.
          jsub (jmul (Fin 0.5) (jadd (jmul b (jsqrt (jsub (Fin 1) (jmul b b)))) (jasin b)))
               (jmul (Fin 0.5) (jadd (jmul a (jsqrt (jsub (Fin 1) (jmul a a)))) (jasin a))))\<rparr>),
     (''ln(x)'', \<lparr>pf_func = (\<lambda>x. Inr (jlog x)),
        pf_exact = (\<lambda>a b. jsub (jsub (jmul b (jlog b)) b) (jsub (jmul a (jlog a)) a))\<rparr>),
     (''exp(-x)'', \<lparr>pf_func = (\<lambda>x. Inr (jexp (jneg x))),
        pf_exact = (\<lambda>a b. jadd (jneg (jexp (jneg b))) (jexp (jneg a)))\<rparr>)]"

section \<open>Running the selected rules (performCalculations)\<close>

text \<open>The record built for one rule. \<open>None\<close> in an optional field is \<open>null\<close>; a
  record built without a failure has no \<open>calculationError\<close>.\<close>

record rule_result =
  r_method :: string
  r_value :: jsnum
  r_color :: string
  r_error :: "jsnum option"
  r_errorEstimate :: "jsnum option"
  r_relativeError :: "jsnum option"
  r_calculationError :: "string option"

text \<open>The component's state that a calculation reads and writes.\<close>

record calculator =
  selectedFunction :: string
  customFunction :: string
  lowerLimit :: jsnum
  upperLimit :: jsnum
  intervals :: nat
  selectedMethods :: "string list"
  currentFunc :: func
  calculationResults :: "rule_result list"
  shouldCalculate :: bool

text \<open>\<open>predefinedFunctions[selectedFunction] && !customFunction ?
  predefinedFunctions[selectedFunction].exact(lowerLimit, upperLimit) : null\<close>\<close>

definition exactValue :: "calculator \<Rightarrow> jsnum option" where
  "exactValue st =
    (case predefinedFunctions (selectedFunction st) of
       Some p \<Rightarrow> if customFunction st = [] then Some (pf_exact p (lowerLimit st) (upperLimit st))
                 else None
     | None \<Rightarrow> None)"

text \<open>The condition \<open>exactValue ? ... : null\<close>: \<open>null\<close>, \<open>0\<close> and \<open>NaN\<close> are falsy.\<close>

definition if_truthy :: "jsnum option \<Rightarrow> (jsnum \<Rightarrow> jsnum) \<Rightarrow> jsnum option" where
  "if_truthy ev k = (case ev of None \<Rightarrow> None | Some e \<Rightarrow> if truthy e then Some (k e) else None)"

text \<open>The callback mapped over the selected rules. An exception of \<open>integrate\<close> is
  caught and becomes a record with \<open>calculationError\<close>. The result is \<open>None\<close> when
  a derivative loop of the error estimate does not end.\<close>

definition calculate_method :: "(nat \<Rightarrow> jsnum) \<Rightarrow> calculator \<Rightarrow> method_obj \<Rightarrow> rule_result option" where
  "calculate_method random st m =
    (case integrate random m (currentFunc st) (lowerLimit st) (upperLimit st) (intervals st) of
       Inl e \<Rightarrow>
         Some \<lparr>r_method = name m, r_value = NaN, r_color = color m, r_error = None,
               r_errorEstimate = None, r_relativeError = None,
               r_calculationError = Some (message e)\<rparr>
     | Inr (v, m') \<Rightarrow>
         (let ev = exactValue st in
          case getErrorEstimate m' (currentFunc st) (lowerLimit st) (upperLimit st) (intervals st) of
            None \<Rightarrow> None
          | Some estimate \<Rightarrow>
              Some \<lparr>r_method = name m', r_value = v, r_color = color m',
                    r_error = if_truthy ev (\<lambda>e. jabs (jsub v e)),
                    r_errorEstimate = estimate,
                    r_relativeError = if_truthy ev (\<lambda>e. jmul (jabs (jdiv (jsub v e) e)) (Fin 100)),
                    r_calculationError = None\<rparr>))"

text \<open>With no rule selected the function alerts and returns, leaving the state as it
  is. Otherwise the results of the selected rules of the registry, in registry order,
  replace \<open>calculationResults\<close>.\<close>

definition performCalculations :: "(nat \<Rightarrow> jsnum) \<Rightarrow> calculator \<Rightarrow> calculator option" where
  "performCalculations random st =
    (if length (selectedMethods st) = 0 then Some st
     else
       case those (map (calculate_method random st)
                    (filter (\<lambda>m. name m \<in> set (selectedMethods st)) integrationMethods)) of
         None \<Rightarrow> None
       | Some results \<Rightarrow> Some (st\<lparr>calculationResults := results, shouldCalculate := False\<rparr>))"

section \<open>The expression compiler (processCustomFunction)\<close>

text \<open>Texts are ASCII strings. The character classes of the regular expressions:
  \<open>\s\<close>, \<open>\d\<close> and the word characters \<open>[A-Za-z0-9_]\<close> that decide a word
  boundary \<open>\b\<close>.\<close>

definition is_space :: "char \<Rightarrow> bool" where
  "is_space c = (c \<in> set [CHR 0x09, CHR 0x0A, CHR 0x0B, CHR 0x0C, CHR 0x0D, CHR 0x20])"

definition is_digit :: "char \<Rightarrow> bool" where
  "is_digit c = (c \<in> set ''0123456789'')"

definition is_upper :: "char \<Rightarrow> bool" where
  "is_upper c = (c \<in> set ''ABCDEFGHIJKLMNOPQRSTUVWXYZ'')"

definition is_lower :: "char \<Rightarrow> bool" where
  "is_lower c = (c \<in> set ''abcdefghijklmnopqrstuvwxyz'')"

definition is_word :: "char \<Rightarrow> bool" where
  "is_word c = (is_digit c \<or> is_upper c \<or> is_lower c \<or> c = CHR ''_'')"

definition lower_char :: "char \<Rightarrow> char" where
  "lower_char c = (if is_upper c then char_of (of_char c + (32::nat)) else c)"

definition toLowerCase :: "string \<Rightarrow> string" where
  "toLowerCase s = map lower_char s"

definition trim :: "string \<Rightarrow> string" where
  "trim s = rev (dropWhile is_space (rev (dropWhile is_space s)))"

text \<open>\<open>.replace(/\s+/g, '')\<close>\<close>

definition remove_spaces :: "string \<Rightarrow> string" where
  "remove_spaces s = filter (\<lambda>c. \<not> is_space c) s"

text \<open>
  \<open>.replace(/\bw\b/g, r)\<close> for a word \<open>w\<close> of letters, scanning from the left; a
  match is not scanned again. \<open>prev\<close> tells whether the character before the current
  position is a word character: the match needs a boundary before and after it.
\<close>

fun replace_word :: "string \<Rightarrow> string \<Rightarrow> bool \<Rightarrow> string \<Rightarrow> string" where
  "replace_word w r prev [] = []"
| "replace_word w r prev (c # cs) =
    (if \<not> prev \<and> w \<noteq> [] \<and> take (length w) (c # cs) = w
        \<and> (case drop (length w) (c # cs) of [] \<Rightarrow> True | d # ds \<Rightarrow> \<not> is_word d)
     then r @ replace_word w r (is_word (last w)) (drop (length w - 1) cs)
     else c # replace_word w r (is_word c) cs)"

text \<open>\<open>.replace(/w/g, r)\<close> for a literal text \<open>w\<close>.\<close>

fun replace_text :: "string \<Rightarrow> string \<Rightarrow> string \<Rightarrow> string" where
  "replace_text w r [] = []"
| "replace_text w r (c # cs) =
    (if w \<noteq> [] \<and> take (length w) (c # cs) = w
     then r @ replace_text w r (drop (length w - 1) cs)
     else c # replace_text w r cs)"

text \<open>\<open>.replace(/e\s*\^/g, 'Math.exp')\<close>: an \<open>e\<close>, any white space, a caret.\<close>

function replace_e_caret :: "string \<Rightarrow> string" where
  "replace_e_caret [] = []"
| "replace_e_caret (c # cs) =
    (if c = CHR ''e'' \<and> (case dropWhile is_space cs of [] \<Rightarrow> False | d # ds \<Rightarrow> d = CHR ''^'')
     then ''Math.exp'' @ replace_e_caret (tl (dropWhile is_space cs))
     else c # replace_e_caret cs)"
  by pat_completeness auto
termination
  by (relation "measure length")
     (auto intro: le_imp_less_Suc order_trans [OF diff_le_self length_dropWhile_le])

text \<open>\<open>.replace(/(p)(q)/g, '$1*$2')\<close> for two single-character classes: a
  multiplication sign between the two characters of each match.\<close>

fun insert_times :: "(char \<Rightarrow> bool) \<Rightarrow> (char \<Rightarrow> bool) \<Rightarrow> string \<Rightarrow> string" where
  "insert_times p q (c # d # cs) =
    (if p c \<and> q d then c # CHR ''*'' # d # insert_times p q cs
     else c # insert_times p q (d # cs))"
| "insert_times p q cs = cs"

definition is_x :: "char \<Rightarrow> bool" where
  "is_x c = (c = CHR ''x'')"

text \<open>The rewriting pipeline: the text \<open>processed\<close> that the source builds from
  \<open>rawFunction\<close>, one \<open>replace\<close> after the other in the order of the source.\<close>

definition processed_of :: "string \<Rightarrow> string" where
  "processed_of rawFunction =
    (let p1 = toLowerCase rawFunction;
         p2 = remove_spaces p1;
         p3 = replace_word ''e'' ''Math.E'' False p2;
         p4 = replace_word ''pi'' ''Math.PI'' False p3;
         p5 = replace_e_caret p4;
         p6 = replace_text ''^'' ''**'' p5;
         p7 = replace_word ''ln'' ''NATURAL_LOG'' False p6;
         p8 = replace_word ''log'' ''Math.log10'' False p7;
         p9 = replace_text ''NATURAL_LOG'' ''Math.log'' p8;
         p10 = replace_word ''sin'' ''Math.sin'' False p9;
         p11 = replace_word ''cos'' ''Math.cos'' False p10;
         p12 = replace_word ''tan'' ''Math.tan'' False p11;
         p13 = replace_word ''csc'' ''(1/Math.sin)'' False p12;
         p14 = replace_word ''sec'' ''(1/Math.cos)'' False p13;
         p15 = replace_word ''cot'' ''(1/Math.tan)'' False p14;
         p16 = replace_word ''asin'' ''Math.asin'' False p15;
         p17 = replace_word ''arcsin'' ''Math.asin'' False p16;
         p18 = replace_word ''acos'' ''Math.acos'' False p17;
         p19 = replace_word ''arccos'' ''Math.acos'' False p18;
         p20 = replace_word ''atan'' ''Math.atan'' False p19;
         p21 = replace_word ''arctan'' ''Math.atan'' False p20;
         p22 = replace_word ''sinh'' ''Math.sinh'' False p21;
         p23 = replace_word ''cosh'' ''Math.cosh'' False p22;
         p24 = replace_word ''tanh'' ''Math.tanh'' False p23;
         p25 = replace_word ''sqrt'' ''Math.sqrt'' False p24;
         p26 = replace_word ''abs'' ''Math.abs'' False p25;
         p27 = insert_times is_digit is_x p26;
         p28 = insert_times is_x is_digit p27;
         p29 = insert_times (\<lambda>c. c = CHR '')'') is_x p28;
         p30 = insert_times (\<lambda>c. c = CHR '')'') (\<lambda>c. c = CHR ''('') p29;
         p31 = insert_times is_x (\<lambda>c. c = CHR ''('') p30
     in p31)"

text \<open>
  The value a compiled callable returns is tested with \<open>typeof testVal === 'number'\<close>,
  so a returned value is a number or something else. \<open>new Function('x', body)\<close> is the
  host's: it is a parameter, which gives for a body text the \<open>SyntaxError\<close> it throws or
  the callable it builds.
\<close>

datatype js_value = Number jsnum | NotNumber

type_synonym callable = "jsnum \<Rightarrow> js_error + js_value"

definition function_body :: "string \<Rightarrow> string" where
  "function_body processed =
    [CHR 0x0A] @ ''      try {'' @ [CHR 0x0A] @
    ''        return '' @ processed @ '';'' @ [CHR 0x0A] @
    ''      } catch (error) {'' @ [CHR 0x0A] @
    ''        throw new Error('Invalid function evaluation: ' + error.message);'' @ [CHR 0x0A] @
    ''      }'' @ [CHR 0x0A] @ ''    ''"

definition testPoints :: "jsnum list" where
  "testPoints = [Fin 0.1, Fin 1, Fin 2, Fin 3, Fin 5]"

text \<open>The test of one probe: an exception and a value that is not a finite number
  leave \<open>hasValidPoints\<close> as it is.\<close>

definition valid_point :: "callable \<Rightarrow> jsnum \<Rightarrow> bool" where
  "valid_point testFunc x =
    (case testFunc x of
       Inl e \<Rightarrow> False
     | Inr NotNumber \<Rightarrow> False
     | Inr (Number testVal) \<Rightarrow> isFinite testVal \<and> \<not> isNaN testVal)"

record compile_result =
  c_processed :: "string option"
  c_error :: string

definition domain_message :: string where
  "domain_message =
    ''Function does not produce valid numeric results. Check your syntax and domain.''"

definition processCustomFunction :: "(string \<Rightarrow> js_error + callable) \<Rightarrow> string \<Rightarrow> compile_result" where
  "processCustomFunction new_Function rawFunction =
    (case
       (if trim rawFunction = [] then Inr \<lparr>c_processed = None, c_error = []\<rparr>
        else
          (let processed = processed_of rawFunction in
           bnd (new_Function (function_body processed)) (\<lambda>testFunc.
           let hasValidPoints =
                 foldl (\<lambda>has x. if valid_point testFunc x then True else has) False testPoints in
           if \<not> hasValidPoints then Inl (Error domain_message)
           else Inr \<lparr>c_processed = Some processed, c_error = []\<rparr>)))
     of
       Inr result \<Rightarrow> result
     | Inl e \<Rightarrow> \<lparr>c_processed = None,
                 c_error = (if message e = [] then ''Invalid function syntax'' else message e)\<rparr>)"

section \<open>Notions used to state the properties\<close>

text \<open>The arguments at which \<open>SimpsonsRule3By8.integrate\<close> calls the integrand when
  \<open>n \<ge> 3\<close>: the nodes of the main block and of the remainder panel.\<close>

definition nodes_simpson38 :: "jsnum \<Rightarrow> jsnum \<Rightarrow> nat \<Rightarrow> jsnum list" where
  "nodes_simpson38 a b n =
    (let remainder = n mod 3;
         h = jdiv (jsub b a) (jnum n);
         mainN = n - remainder;
         remA = jadd a (jmul (jnum mainN) h) in
     (if 3 \<le> mainN
      then a # remA # map (\<lambda>i. jadd a (jmul (jnum i) h)) [1..<mainN] else []) @
     (if 0 < remainder
      then remA # b # map (\<lambda>i. jadd remA (jmul (jnum i) h)) [1..<remainder] else []))"

text \<open>An integrand that returns a finite number at every finite argument.\<close>

definition finite_valued :: "func \<Rightarrow> bool" where
  "finite_valued f = (\<forall>x. \<exists>y. f (Fin x) = Inr (Fin y))"

text \<open>
  The composite Simpson 1/3 formula in the words of the specification:
  \<open>(h/3) * [f(a) + f(b) + 4 * (sum of f(x_i) over odd i) + 2 * (sum of f(x_i) over even i,
  0 < i < n)]\<close> with \<open>h = (b - a)/n\<close> and \<open>x_i = a + i * h\<close>, for an integrand
  that returns a number at every argument.
\<close>

definition jsum :: "jsnum list \<Rightarrow> jsnum" where
  "jsum ys = foldr jadd ys (Fin 0)"

definition composite_simpson13 :: "(jsnum \<Rightarrow> jsnum) \<Rightarrow> jsnum \<Rightarrow> jsnum \<Rightarrow> nat \<Rightarrow> jsnum" where
  "composite_simpson13 g a b n =
    (let h = jdiv (jsub b a) (jnum n);
         x = (\<lambda>i. jadd a (jmul (jnum i) h)) in
     jmul (jdiv h (Fin 3))
       (jadd (jadd (jadd (g a) (g b))
                   (jmul (Fin 4) (jsum (map (\<lambda>i. g (x i)) (filter odd [1..<n])))))
             (jmul (Fin 2) (jsum (map (\<lambda>i. g (x i)) (filter even [1..<n]))))))"

section \<open>Properties of the registry and the rules\<close>

text \<open>
  C1 (as amended). The registry holds one instance each of the Trapezoidal, Simpson 1/3,
  Simpson 3/8 and Monte Carlo classes, in this order, and looking up one of their names
  finds that instance. No entry carries the name of the Midpoint rule.
\<close>

theorem C1_registry:
  "map name integrationMethods =
     [''Trapezoidal Rule'', ''Simpson's 1/3'', ''Simpson's 3/8'', ''Monte Carlo''] \<and>
   map cls integrationMethods =
     [TrapezoidalRule, SimpsonsRule1By3, SimpsonsRule3By8, MonteCarloIntegration] \<and>
   find_method ''Trapezoidal Rule'' = Some new_TrapezoidalRule \<and>
   find_method ''Simpson's 1/3'' = Some new_SimpsonsRule1By3 \<and>
   find_method ''Simpson's 3/8'' = Some new_SimpsonsRule3By8 \<and>
   find_method ''Monte Carlo'' = Some new_MonteCarloIntegration \<and>
   ''Midpoint Rule'' \<notin> set (map name integrationMethods)"
  by (simp add: find_method_def integrationMethods_def new_TrapezoidalRule_def
      new_SimpsonsRule1By3_def new_SimpsonsRule3By8_def new_MonteCarloIntegration_def)

text \<open>
  C1 (as stated) fails: selecting the Midpoint identifier yields no rule, although the
  class \<open>MidpointRule\<close> names itself \<open>Midpoint Rule\<close>.
\<close>

theorem C1_midpoint_not_registered:
  "name new_MidpointRule = ''Midpoint Rule'' \<and> find_method ''Midpoint Rule'' = None"
  by (simp add: find_method_def integrationMethods_def new_TrapezoidalRule_def
      new_SimpsonsRule1By3_def new_SimpsonsRule3By8_def new_MonteCarloIntegration_def
      new_MidpointRule_def)

subsection \<open>Finite results\<close>

text \<open>
  With finite bounds and an integrand that is finite at every finite argument, each rule
  returns a finite number from its smallest sensible interval count on: one interval for
  Trapezoidal, Midpoint and Monte Carlo (whose draws are finite), two for Simpson 1/3 and
  three for Simpson 3/8.
\<close>

lemma for_each_invariant:
  assumes "I s" and "\<And>i s. i \<in> set xs \<Longrightarrow> I s \<Longrightarrow> \<exists>s'. body i s = Inr s' \<and> I s'"
  shows "\<exists>s'. for_each body xs s = Inr s' \<and> I s'"
  using assms
proof (induction xs arbitrary: s)
  case Nil
  then show ?case by simp
next
  case (Cons i rest)
  from Cons.prems(2) [of i s] Cons.prems(1) obtain s1 where s1: "body i s = Inr s1" "I s1"
    by auto
  from Cons.IH [OF s1(2)] Cons.prems(2) obtain s2 where "for_each body rest s1 = Inr s2" "I s2"
    by (metis list.set_intros(2))
  with s1 show ?case by (simp add: bnd_def)
qed

lemma isFiniteE: "isFinite s \<Longrightarrow> (\<And>r. s = Fin r \<Longrightarrow> P) \<Longrightarrow> P"
  by (cases s) simp_all

lemma finite_valuedD:
  "finite_valued f \<Longrightarrow> \<exists>g. \<forall>x. f (Fin x) = Inr (Fin (g x))"
  unfolding finite_valued_def by metis

lemma step_finite:
  "0 < n \<Longrightarrow> jdiv (jsub (Fin b) (Fin a)) (jnum n) = Fin ((b - a) / real n)"
  by (simp add: jsub_def jnum_def)

lemma trapezoidal_finite:
  assumes "finite_valued f" and "0 < n"
  shows "\<exists>v. integrate_trapezoidal f (Fin a) (Fin b) n = Inr v \<and> isFinite v"
proof -
  from finite_valuedD [OF assms(1)] obtain g where g: "\<And>x. f (Fin x) = Inr (Fin (g x))"
    by blast
  define h where "h = (b - a) / real n"
  have "\<exists>s'. for_each (\<lambda>i sum. bnd (f (jadd (Fin a) (jmul (jnum i) (Fin h)))) (\<lambda>y. Inr (jadd sum y)))
      [1..<n] (jdiv (jadd (Fin (g a)) (Fin (g b))) (Fin 2)) = Inr s' \<and> isFinite s'"
    by (rule for_each_invariant) (auto simp: g bnd_def jnum_def elim!: isFiniteE)
  then obtain r where "for_each (\<lambda>i sum. bnd (f (jadd (Fin a) (jmul (jnum i) (Fin h)))) (\<lambda>y. Inr (jadd sum y)))
      [1..<n] (jdiv (jadd (Fin (g a)) (Fin (g b))) (Fin 2)) = Inr (Fin r)"
    by (auto elim: isFiniteE)
  then show ?thesis
    unfolding integrate_trapezoidal_def step_finite [OF assms(2)] Let_def h_def [symmetric] g bnd_def
    by simp
qed

lemma midpoint_finite:
  assumes "finite_valued f" and "0 < n"
  shows "\<exists>v. integrate_midpoint f (Fin a) (Fin b) n = Inr v \<and> isFinite v"
proof -
  from finite_valuedD [OF assms(1)] obtain g where g: "\<And>x. f (Fin x) = Inr (Fin (g x))"
    by blast
  define h where "h = (b - a) / real n"
  have "\<exists>s'. for_each (\<lambda>i sum. bnd (f (jadd (Fin a) (jmul (jadd (jnum i) (Fin 0.5)) (Fin h))))
                 (\<lambda>y. Inr (jadd sum y)))
      [0..<n] (Fin 0) = Inr s' \<and> isFinite s'"
    by (rule for_each_invariant) (auto simp: g bnd_def jnum_def elim!: isFiniteE)
  then obtain r where "for_each (\<lambda>i sum. bnd (f (jadd (Fin a) (jmul (jadd (jnum i) (Fin 0.5)) (Fin h))))
                 (\<lambda>y. Inr (jadd sum y)))
      [0..<n] (Fin 0) = Inr (Fin r)"
    by (auto elim: isFiniteE)
  then show ?thesis
    unfolding integrate_midpoint_def step_finite [OF assms(2)] Let_def h_def [symmetric] bnd_def
    by simp
qed

lemma simpsonRule_finite:
  assumes "finite_valued f" and "0 < n"
  shows "\<exists>v. simpsonRule f (Fin a) (Fin b) n = Inr v \<and> isFinite v"
proof -
  from finite_valuedD [OF assms(1)] obtain g where g: "\<And>x. f (Fin x) = Inr (Fin (g x))"
    by blast
  define h where "h = (b - a) / real n"
  have "\<exists>s'. for_each (\<lambda>i sum. bnd (f (jadd (Fin a) (jmul (jnum i) (Fin h))))
               (\<lambda>y. Inr (jadd sum (jmul (Fin (if i mod 2 = 0 then 2 else 4)) y))))
      [1..<n] (jadd (Fin (g a)) (Fin (g b))) = Inr s' \<and> isFinite s'"
    by (rule for_each_invariant) (auto simp: g bnd_def jnum_def elim!: isFiniteE)
  then obtain r where "for_each (\<lambda>i sum. bnd (f (jadd (Fin a) (jmul (jnum i) (Fin h))))
               (\<lambda>y. Inr (jadd sum (jmul (Fin (if i mod 2 = 0 then 2 else 4)) y))))
      [1..<n] (jadd (Fin (g a)) (Fin (g b))) = Inr (Fin r)"
    by (auto elim: isFiniteE)
  then show ?thesis
    unfolding simpsonRule_def step_finite [OF assms(2)] Let_def h_def [symmetric] g bnd_def
    by simp
qed

lemma simpson13_finite:
  assumes "finite_valued f" and "2 \<le> n"
  shows "\<exists>v. integrate_simpson13 f (Fin a) (Fin b) n = Inr v \<and> isFinite v"
proof (cases "n mod 2 = 0")
  case True
  with assms simpsonRule_finite [of f n a b] show ?thesis
    by (simp add: integrate_simpson13_def)
next
  case False
  from finite_valuedD [OF assms(1)] obtain g where g: "\<And>x. f (Fin x) = Inr (Fin (g x))"
    by blast
  have n: "0 < n" "0 < n - 1" using assms(2) False by auto
  from simpsonRule_finite [OF assms(1) n(2), of a "b - (b - a) / real n"]
  obtain s where "simpsonRule f (Fin a) (Fin (b - (b - a) / real n)) (n - 1) = Inr (Fin s)"
    by (auto elim: isFiniteE)
  with False show ?thesis
    unfolding integrate_simpson13_def step_finite [OF n(1)] Let_def
    by (simp add: g bnd_def jsub_def)
qed

lemma simpson38_finite:
  assumes "finite_valued f" and "3 \<le> n"
  shows "\<exists>v. integrate_simpson38 f (Fin a) (Fin b) n = Inr v \<and> isFinite v"
proof -
  from finite_valuedD [OF assms(1)] obtain g where g: "\<And>x. f (Fin x) = Inr (Fin (g x))"
    by blast
  define h where "h = (b - a) / real n"
  define mainN where "mainN = n - n mod 3"
  define remA where "remA = a + real mainN * h"
  define body1 where "body1 = (\<lambda>i sum. let x = jadd (Fin a) (jmul (jnum i) (Fin h)) in
             if i mod 3 = 0
             then bnd (f x) (\<lambda>y. Inr (jadd sum (jmul (Fin 2) y)))
             else bnd (f x) (\<lambda>y. Inr (jadd sum (jmul (Fin 3) y))))"
  define body2 where "body2 =
    (\<lambda>i remSum. bnd (f (jadd (Fin remA) (jmul (jnum i) (Fin h)))) (\<lambda>y. Inr (jadd remSum y)))"
  have n: "0 < n" and main3: "3 \<le> n - n mod 3" using assms(2) by presburger+
  have rA: "jadd (Fin a) (jmul (jnum (n - n mod 3)) (Fin ((b - a) / real n)))
      = Fin (a + real (n - n mod 3) * ((b - a) / real n))"
    by (simp add: jnum_def)
  have E: "integrate_simpson38 f (Fin a) (Fin b) n =
    bnd (bnd (for_each body1 [1..<mainN] (Fin (g a + g remA))) (\<lambda>sum.
           Inr (jadd (Fin 0) (jmul (Fin (3 * h / 8)) sum))))
      (\<lambda>total1. if 0 < n mod 3
         then bnd (for_each body2 [1..<n mod 3] (Fin ((g remA + g b) / 2))) (\<lambda>remSum.
              Inr (jadd total1 (jmul remSum (Fin h))))
         else Inr total1)"
    unfolding integrate_simpson38_def step_finite [OF n] Let_def rA g
      body1_def body2_def remA_def mainN_def h_def
    using assms(2) main3 by (cases "0 < n mod 3") (simp_all add: bnd_def)
  have "\<exists>s'. for_each body1 [1..<mainN] (Fin (g a + g remA)) = Inr s' \<and> isFinite s'"
    by (rule for_each_invariant)
       (auto simp: body1_def g bnd_def jnum_def Let_def elim!: isFiniteE)
  then obtain s1 where s1: "for_each body1 [1..<mainN] (Fin (g a + g remA)) = Inr (Fin s1)"
    by (auto elim: isFiniteE)
  have "\<exists>s'. for_each body2 [1..<n mod 3] (Fin ((g remA + g b) / 2)) = Inr s' \<and> isFinite s'"
    by (rule for_each_invariant)
       (auto simp: body2_def g bnd_def jnum_def elim!: isFiniteE)
  then obtain s2 where s2: "for_each body2 [1..<n mod 3] (Fin ((g remA + g b) / 2)) = Inr (Fin s2)"
    by (auto elim: isFiniteE)
  show ?thesis
    unfolding E s1 s2 by (simp add: bnd_def)
qed

lemma montecarlo_finite:
  assumes "finite_valued f" and "0 < n" and r: "\<And>i. isFinite (random i)"
  shows "\<exists>v samples. integrate_montecarlo random f (Fin a) (Fin b) n = Inr (v, samples)
           \<and> isFinite v"
proof -
  from finite_valuedD [OF assms(1)] obtain g where g: "\<And>x. f (Fin x) = Inr (Fin (g x))"
    by blast
  have "\<exists>s'. for_each
           (\<lambda>i (sum, samples). let x = jadd (Fin a) (jmul (random i) (jsub (Fin b) (Fin a))) in
              bnd (f x) (\<lambda>y. Inr (jadd sum y, samples @ [\<lparr>sample_x = x, sample_y = y\<rparr>])))
           [0..<n] (Fin 0, []) = Inr s' \<and> isFinite (fst s')"
  proof (rule for_each_invariant)
    show "isFinite (fst (Fin 0, []))" by simp
  next
    fix i and s :: "jsnum \<times> sample list"
    assume "isFinite (fst s)"
    then obtain q samples where s: "s = (Fin q, samples)"
      by (cases s) (auto elim: isFiniteE)
    from r [of i] obtain u where u: "random i = Fin u" by (auto elim: isFiniteE)
    show "\<exists>s'. (case s of (acc, samples) \<Rightarrow>
              let x = jadd (Fin a) (jmul (random i) (jsub (Fin b) (Fin a))) in
              bnd (f x) (\<lambda>y. Inr (jadd acc y, samples @ [\<lparr>sample_x = x, sample_y = y\<rparr>])))
            = Inr s' \<and> isFinite (fst s')"
      by (simp add: s u g bnd_def jsub_def Let_def)
  qed
  then obtain q samples where "for_each
           (\<lambda>i (sum, samples). let x = jadd (Fin a) (jmul (random i) (jsub (Fin b) (Fin a))) in
              bnd (f x) (\<lambda>y. Inr (jadd sum y, samples @ [\<lparr>sample_x = x, sample_y = y\<rparr>])))
           [0..<n] (Fin 0, []) = Inr (Fin q, samples)"
    by (metis isFiniteE prod.collapse)
  then show ?thesis
    unfolding integrate_montecarlo_def using assms(2)
    by (simp add: bnd_def jnum_def jsub_def)
qed

text \<open>
  C2. With one interval Simpson 1/3 takes its odd branch, which applies the composite
  formula to \<open>n - 1 = 0\<close> intervals: the step is \<open>0/0\<close>, and the result is \<open>NaN\<close>
  although the integrand \<open>x * x\<close> is finite at the nodes 0 and 2.
\<close>

theorem C2_simpson13_one_interval:
  "integrate_simpson13 (\<lambda>x. Inr (jmul x x)) (Fin 0) (Fin 2) 1 = Inr NaN"
  by (simp add: integrate_simpson13_def simpsonRule_def bnd_def jsub_def jnum_def inf_of_sign_def)

subsection \<open>Simpson 1/3\<close>

lemma for_each_total:
  "for_each (\<lambda>i s. Inr (F i s)) xs s = Inr (foldl (\<lambda>s i. F i s) s xs)"
  by (induction xs arbitrary: s) (simp_all add: bnd_def)

lemma foldl_jadd_Fin:
  "foldl (\<lambda>s i. jadd s (Fin (c i))) (Fin s) xs = Fin (s + sum_list (map c xs))"
  by (induction xs arbitrary: s) (simp_all add: add.assoc)

lemma simpson_weights_sum:
  "(\<Sum>i = 1..<2 * Suc m. (if i mod 2 = 0 then 2 else 4) * (real i)\<^sup>2)
     = 4 * (real (Suc m))\<^sup>2 * (2 * real (Suc m) - 1)"
proof (induction m)
  case 0
  show ?case by (simp add: numeral_2_eq_2)
next
  case (Suc m)
  have "(\<Sum>i = 1..<2 * Suc (Suc m). (if i mod 2 = 0 then 2 else 4) * (real i)\<^sup>2)
      = (\<Sum>i = 1..<2 * Suc m. (if i mod 2 = 0 then 2 else 4) * (real i)\<^sup>2)
        + 2 * (real (2 * Suc m))\<^sup>2 + 4 * (real (Suc (2 * Suc m)))\<^sup>2"
    by simp
  also have "\<dots> = 4 * (real (Suc m))\<^sup>2 * (2 * real (Suc m) - 1)
        + 2 * (real (2 * Suc m))\<^sup>2 + 4 * (real (Suc (2 * Suc m)))\<^sup>2"
    by (simp only: Suc.IH)
  also have "\<dots> = 4 * (real (Suc (Suc m)))\<^sup>2 * (2 * real (Suc (Suc m)) - 1)"
    by (simp add: power2_eq_square algebra_simps)
  finally show ?case .
qed

lemma simpsonRule_square:
  assumes "n = 2 * Suc m"
  shows "simpsonRule (\<lambda>x. Inr (jmul x x)) (Fin 0) (Fin 2) n = Inr (Fin (8 / 3))"
proof -
  define h :: real where "h = 2 / real n"
  define body where "body = (\<lambda>i sum. let x = jadd (Fin 0) (jmul (jnum i) (Fin h)) in
     bnd (Inr (jmul x x)) (\<lambda>y. Inr (jadd sum (jmul (Fin (if i mod 2 = 0 then 2 else 4)) y))))"
  have npos: "real n \<noteq> 0" using assms by simp
  have hh: "jdiv (jsub (Fin 2) (Fin 0)) (jnum n) = Fin h"
    using npos by (simp add: jsub_def jnum_def h_def)
  have S: "simpsonRule (\<lambda>x. Inr (jmul x x)) (Fin 0) (Fin 2) n
      = bnd (for_each body [1..<n] (Fin 4)) (\<lambda>sum. Inr (jdiv (jmul sum (Fin h)) (Fin 3)))"
    unfolding simpsonRule_def hh body_def by (simp add: bnd_def Let_def)
  have B: "body = (\<lambda>i sum. Inr (jadd sum (Fin ((if i mod 2 = 0 then 2 else 4) * (real i)\<^sup>2 * h\<^sup>2))))"
    unfolding body_def
    by (intro ext) (simp add: Let_def bnd_def jnum_def power2_eq_square algebra_simps)
  have "(\<Sum>i = 1..<n. (if i mod 2 = 0 then 2 else 4) * (real i)\<^sup>2 * h\<^sup>2)
      = (\<Sum>i = 1..<n. (if i mod 2 = 0 then 2 else 4) * (real i)\<^sup>2) * h\<^sup>2"
    by (simp add: sum_distrib_right)
  also have "\<dots> = 4 * (real (Suc m))\<^sup>2 * (2 * real (Suc m) - 1) * h\<^sup>2"
    unfolding assms simpson_weights_sum ..
  also have "\<dots> = 4 * (real n - 1)"
  proof -
    define k where "k = real (Suc m)"
    have k: "k \<noteq> 0" and n2: "real n = 2 * k" by (simp_all add: k_def assms)
    have "h = 1 / k" using k by (simp add: h_def n2)
    then have "4 * k\<^sup>2 * (2 * k - 1) * h\<^sup>2 = 4 * (2 * k - 1)"
      using k by (simp add: power2_eq_square)
    then show ?thesis unfolding n2 k_def .
  qed
  finally have total: "(\<Sum>i = 1..<n. (if i mod 2 = 0 then 2 else 4) * (real i)\<^sup>2 * h\<^sup>2)
      = 4 * (real n - 1)" .
  have L: "for_each body [1..<n] (Fin 4) = Inr (Fin (4 + 4 * (real n - 1)))"
    unfolding B for_each_total foldl_jadd_Fin interv_sum_list_conv_sum_set_nat
    using total by simp
  have "jdiv (jmul (Fin (4 + 4 * (real n - 1))) (Fin h)) (Fin 3) = Fin (8 / 3)"
    using npos by (simp add: h_def field_simps)
  then show ?thesis
    unfolding S L by (simp add: bnd_def)
qed

text \<open>
  C6. For the integrand \<open>x * x\<close> on \<open>[0, 2]\<close> Simpson 1/3 returns exactly \<open>8/3\<close>
  at every even interval count \<open>n \<ge> 2\<close>, in exact arithmetic.
\<close>

theorem C6_simpson13_square:
  assumes "n mod 2 = 0" and "2 \<le> n"
  shows "integrate_simpson13 (\<lambda>x. Inr (jmul x x)) (Fin 0) (Fin 2) n = Inr (Fin (8 / 3))"
proof -
  from assms obtain m where "n = 2 * Suc m"
    by (metis dvd_def mod_0_imp_dvd nat.exhaust not_numeral_le_zero mult_0_right)
  then show ?thesis
    using assms by (simp add: integrate_simpson13_def simpsonRule_square)
qed

theorem C6_simpson13_square_witness:
  "(6::nat) mod 2 = 0 \<and> (2::nat) \<le> 6 \<and>
   integrate_simpson13 (\<lambda>x. Inr (jmul x x)) (Fin 0) (Fin 2) 6 = Inr (Fin (8 / 3))"
  using C6_simpson13_square [of 6] by simp

lemma jadd_commute: "jadd x y = jadd y x"
  by (cases x; cases y) simp_all

lemma jadd_assoc: "jadd (jadd x y) z = jadd x (jadd y z)"
  by (cases x; cases y; cases z) simp_all

lemma jadd_left_commute: "jadd x (jadd y z) = jadd y (jadd x z)"
  by (cases x; cases y; cases z) simp_all

lemma jadd_zero: "jadd x (Fin 0) = x"
  by (cases x) simp_all

lemma jmul_commute: "jmul x y = jmul y x"
  by (cases x; cases y) simp_all

lemma jmul_pos_distrib:
  "0 < c \<Longrightarrow> jmul (Fin c) (jadd x y) = jadd (jmul (Fin c) x) (jmul (Fin c) y)"
  by (cases x; cases y) (simp_all add: inf_of_sign_def algebra_simps)

lemma jdiv_jmul_3: "jdiv (jmul s h) (Fin 3) = jmul (jdiv h (Fin 3)) s"
  by (cases s; cases h) (auto simp: inf_of_sign_def)

lemma foldl_simpson_weights:
  "foldl (\<lambda>s i. jadd s (jmul (Fin (if i mod 2 = 0 then 2 else 4)) (y i))) s (xs :: nat list)
     = jadd (jadd s (jmul (Fin 4) (jsum (map y (filter odd xs)))))
            (jmul (Fin 2) (jsum (map y (filter even xs))))"
proof (induction xs arbitrary: s)
  case Nil
  show ?case by (simp add: jsum_def jadd_zero)
next
  case (Cons i xs)
  show ?case
  proof (cases "even i")
    case True
    then have "i mod 2 = 0" by presburger
    with True show ?thesis
      by (simp add: Cons.IH jsum_def jmul_pos_distrib jadd_assoc jadd_left_commute)
  next
    case False
    then have "i mod 2 \<noteq> 0" by presburger
    with False show ?thesis
      by (simp add: Cons.IH jsum_def jmul_pos_distrib jadd_assoc)
  qed
qed

lemma simpsonRule_composite:
  "simpsonRule (\<lambda>x. Inr (g x)) a b n = Inr (composite_simpson13 g a b n)"
proof -
  define h where "h = jdiv (jsub b a) (jnum n)"
  have body: "(\<lambda>i sum. let x = jadd a (jmul (jnum i) h) in
        bnd (Inr (g x)) (\<lambda>y. Inr (jadd sum (jmul (Fin (if i mod 2 = 0 then 2 else 4)) y))))
      = (\<lambda>i sum. Inr (jadd sum (jmul (Fin (if i mod 2 = 0 then 2 else 4))
                                    (g (jadd a (jmul (jnum i) h))))))"
    by (intro ext) (simp add: Let_def bnd_def)
  have S: "simpsonRule (\<lambda>x. Inr (g x)) a b n
      = Inr (jdiv (jmul (foldl (\<lambda>s i. jadd s (jmul (Fin (if i mod 2 = 0 then 2 else 4))
                                    (g (jadd a (jmul (jnum i) h))))) (jadd (g a) (g b)) [1..<n]) h)
                  (Fin 3))"
    unfolding simpsonRule_def h_def [symmetric] Let_def [of h] body for_each_total
    by (simp add: bnd_def)
  show ?thesis
    unfolding S foldl_simpson_weights jdiv_jmul_3
    by (simp add: composite_simpson13_def Let_def h_def)
qed

text \<open>From two intervals on and with finite bounds, the step that the odd branch's call
  of \<open>simpsonRule\<close> computes for \<open>[a, b - h]\<close> and \<open>n - 1\<close> intervals is \<open>h\<close>
  itself: its nodes are the first nodes of the original grid.\<close>

lemma simpson_part_step:
  assumes "2 \<le> n"
  shows "jdiv (jsub (jsub (Fin b) (jdiv (jsub (Fin b) (Fin a)) (jnum n))) (Fin a)) (jnum (n - 1))
     = jdiv (jsub (Fin b) (Fin a)) (jnum n)"
proof -
  have n: "real n \<noteq> 0" "real (n - 1) \<noteq> 0" "real (n - 1) = real n - 1"
    using assms by simp_all
  have "(b - (b - a) / real n - a) / (real n - 1) = (b - a) / real n"
    using n by (simp add: field_simps)
  with n show ?thesis
    by (simp add: jsub_def jnum_def)
qed

text \<open>
  C4. For an odd interval count and an integrand that returns a number at every
  argument, Simpson 1/3 returns the composite Simpson 1/3 formula over the first
  \<open>n - 1\<close> subintervals, from \<open>a\<close> to \<open>b - h\<close> with \<open>h = (b - a)/n\<close>, plus the
  trapezoidal panel \<open>(h/2) * (f(b - h) + f(b))\<close>. The bounds are arbitrary numbers. For
  \<open>n = 1\<close> the formula is applied to no subinterval and both sides are \<open>NaN\<close>.
\<close>

theorem C4_simpson13_odd:
  assumes "n mod 2 \<noteq> 0"
  shows "integrate_simpson13 (\<lambda>x. Inr (g x)) a b n =
    (let h = jdiv (jsub b a) (jnum n) in
     Inr (jadd (composite_simpson13 g a (jsub b h) (n - 1))
               (jmul (jdiv h (Fin 2)) (jadd (g (jsub b h)) (g b)))))"
  using assms
  by (simp add: integrate_simpson13_def simpsonRule_composite bnd_def Let_def)

theorem C4_simpson13_odd_witness:
  "(3::nat) mod 2 \<noteq> 0 \<and>
   composite_simpson13 (\<lambda>x. jmul x x) (Fin 0) (Fin 2) 2 = Fin (8 / 3) \<and>
   integrate_simpson13 (\<lambda>x. Inr (jmul x x)) (Fin 0) (Fin 3) 3 = Inr (Fin (55 / 6))"
  using C4_simpson13_odd [of 3 "\<lambda>x. jmul x x" "Fin 0" "Fin 3"]
  by (simp add: composite_simpson13_def jsum_def Let_def jsub_def jnum_def upt_rec)

subsection \<open>Simpson 3/8\<close>

lemma for_each_succeeds:
  "(\<And>i s. i \<in> set xs \<Longrightarrow> \<exists>s'. body i s = Inr s') \<Longrightarrow> \<exists>s'. for_each body xs s = Inr s'"
proof (induction xs arbitrary: s)
  case Nil
  then show ?case by simp
next
  case (Cons i rest)
  from Cons.prems [of i s] obtain s1 where s1: "body i s = Inr s1" by auto
  from Cons.IH [of s1] Cons.prems obtain s2 where "for_each body rest s1 = Inr s2" by auto
  with s1 show ?case by (simp add: bnd_def)
qed

lemma simpson38_too_few:
  "n < 3 \<Longrightarrow> integrate_simpson38 func a b n
     = Inl (Error ''Simpson's 3/8 rule requires at least 3 intervals.'')"
  by (simp add: integrate_simpson38_def)

lemma simpson38_returns:
  assumes n: "3 \<le> n"
    and nodes: "\<forall>x\<in>set (nodes_simpson38 a b n). \<exists>y. func x = Inr y"
  shows "\<exists>v. integrate_simpson38 func a b n = Inr v"
proof -
  define h where "h = jdiv (jsub b a) (jnum n)"
  define mainN where "mainN = n - n mod 3"
  define remA where "remA = jadd a (jmul (jnum mainN) h)"
  define body1 where "body1 = (\<lambda>i sum. let x = jadd a (jmul (jnum i) h) in
             if i mod 3 = 0
             then bnd (func x) (\<lambda>y. Inr (jadd sum (jmul (Fin 2) y)))
             else bnd (func x) (\<lambda>y. Inr (jadd sum (jmul (Fin 3) y))))"
  define body2 where "body2 =
    (\<lambda>i remSum. bnd (func (jadd remA (jmul (jnum i) h))) (\<lambda>y. Inr (jadd remSum y)))"
  have main3: "3 \<le> n - n mod 3" using n by presburger
  have E: "integrate_simpson38 func a b n =
    bnd (bnd (func a) (\<lambda>fa. bnd (func remA) (\<lambda>fm.
           bnd (for_each body1 [1..<mainN] (jadd fa fm)) (\<lambda>sum.
           Inr (jadd (Fin 0) (jmul (jdiv (jmul (Fin 3) h) (Fin 8)) sum))))))
      (\<lambda>total1. if 0 < n mod 3
         then bnd (func remA) (\<lambda>fra. bnd (func b) (\<lambda>frb.
              bnd (for_each body2 [1..<n mod 3] (jdiv (jadd fra frb) (Fin 2))) (\<lambda>remSum.
              Inr (jadd total1 (jmul remSum h)))))
         else Inr total1)"
    unfolding integrate_simpson38_def Let_def body1_def body2_def remA_def mainN_def h_def
    using n main3 by simp
  have N: "nodes_simpson38 a b n =
      (a # remA # map (\<lambda>i. jadd a (jmul (jnum i) h)) [1..<mainN]) @
      (if 0 < n mod 3
       then remA # b # map (\<lambda>i. jadd remA (jmul (jnum i) h)) [1..<n mod 3] else [])"
    using main3 by (simp add: nodes_simpson38_def Let_def h_def mainN_def remA_def)
  have ok: "\<And>x. x \<in> set (nodes_simpson38 a b n) \<Longrightarrow> \<exists>y. func x = Inr y"
    using nodes by blast
  have in_a: "a \<in> set (nodes_simpson38 a b n)" by (simp add: N)
  have in_m: "remA \<in> set (nodes_simpson38 a b n)" by (simp add: N)
  have in_main: "\<And>i. i \<in> set [1..<mainN] \<Longrightarrow>
      jadd a (jmul (jnum i) h) \<in> set (nodes_simpson38 a b n)" by (simp add: N)
  have in_b: "0 < n mod 3 \<Longrightarrow> b \<in> set (nodes_simpson38 a b n)" by (simp add: N)
  have in_rem: "\<And>i. 0 < n mod 3 \<Longrightarrow> i \<in> set [1..<n mod 3] \<Longrightarrow>
      jadd remA (jmul (jnum i) h) \<in> set (nodes_simpson38 a b n)" by (simp add: N)
  from ok [OF in_a] obtain fa where fa: "func a = Inr fa" by blast
  from ok [OF in_m] obtain fm where fm: "func remA = Inr fm" by blast
  have "\<exists>s'. for_each body1 [1..<mainN] (jadd fa fm) = Inr s'"
  proof (rule for_each_succeeds)
    fix i s assume "i \<in> set [1..<mainN]"
    from ok [OF in_main [OF this]] obtain y where "func (jadd a (jmul (jnum i) h)) = Inr y"
      by blast
    then show "\<exists>s'. body1 i s = Inr s'"
      by (simp add: body1_def bnd_def Let_def)
  qed
  then obtain sum where sum: "for_each body1 [1..<mainN] (jadd fa fm) = Inr sum" by blast
  show ?thesis
  proof (cases "0 < n mod 3")
    case False
    with fa fm sum show ?thesis
      by (simp add: E bnd_def)
  next
    case True
    from ok [OF in_b [OF True]] obtain fb where fb: "func b = Inr fb" by blast
    have "\<exists>s'. for_each body2 [1..<n mod 3] (jdiv (jadd fm fb) (Fin 2)) = Inr s'"
    proof (rule for_each_succeeds)
      fix i s assume "i \<in> set [1..<n mod 3]"
      from ok [OF in_rem [OF True this]] obtain y
        where "func (jadd remA (jmul (jnum i) h)) = Inr y" by blast
      then show "\<exists>s'. body2 i s = Inr s'"
        by (simp add: body2_def bnd_def)
    qed
    then obtain remSum
      where "for_each body2 [1..<n mod 3] (jdiv (jadd fm fb) (Fin 2)) = Inr remSum" by blast
    with True fa fm fb sum show ?thesis
      by (simp add: E bnd_def)
  qed
qed

text \<open>
  C5. Simpson 3/8 throws its parameter error when \<open>n < 3\<close>. When \<open>n \<ge> 3\<close> and the
  integrand returns a value at every node the rule samples, it returns a value: the
  parameter error arises for \<open>n < 3\<close> only.
\<close>

theorem C5_simpson38_parameter_error:
  "(n < 3 \<longrightarrow> integrate_simpson38 func a b n
       = Inl (Error ''Simpson's 3/8 rule requires at least 3 intervals.'')) \<and>
   (3 \<le> n \<longrightarrow> (\<forall>x\<in>set (nodes_simpson38 a b n). \<exists>y. func x = Inr y) \<longrightarrow>
      (\<exists>v. integrate_simpson38 func a b n = Inr v))"
  using simpson38_too_few simpson38_returns by blast

theorem C5_simpson38_parameter_error_witness:
  "(2::nat) < 3 \<and>
   integrate_simpson38 (\<lambda>x. Inr (jmul x x)) (Fin 0) (Fin 1) 2
     = Inl (Error ''Simpson's 3/8 rule requires at least 3 intervals.'') \<and>
   (3::nat) \<le> 4 \<and>
   (\<exists>v. integrate_simpson38 (\<lambda>x. Inr (jmul x x)) (Fin 0) (Fin 1) 4 = Inr v)"
  using C5_simpson38_parameter_error [of 2 "\<lambda>x. Inr (jmul x x)" "Fin 0" "Fin 1"]
    C5_simpson38_parameter_error [of 4 "\<lambda>x. Inr (jmul x x)" "Fin 0" "Fin 1"]
  by simp

subsection \<open>The record of one rule\<close>

text \<open>Every record that \<open>performCalculations\<close> stores is the callback's record for
  a selected rule of the registry.\<close>

lemma those_map_member:
  "those (map f xs) = Some ys \<Longrightarrow> r \<in> set ys \<Longrightarrow> \<exists>x\<in>set xs. f x = Some r"
proof (induction xs arbitrary: ys)
  case Nil
  then show ?case by simp
next
  case (Cons x xs)
  then show ?case
    by (auto split: option.splits)
qed

lemma performCalculations_results:
  assumes "performCalculations random st = Some st'" and "selectedMethods st \<noteq> []"
    and "r \<in> set (calculationResults st')"
  shows "\<exists>m\<in>set integrationMethods.
           name m \<in> set (selectedMethods st) \<and> calculate_method random st m = Some r"
proof -
  from assms(1,2) obtain results
    where t: "those (map (calculate_method random st)
                (filter (\<lambda>m. name m \<in> set (selectedMethods st)) integrationMethods)) = Some results"
      and st': "st' = st\<lparr>calculationResults := results, shouldCalculate := False\<rparr>"
    by (auto simp: performCalculations_def split: option.splits)
  from assms(3) st' have "r \<in> set results" by simp
  from those_map_member [OF t this] show ?thesis by auto
qed

lemma simpson38_x3_4:
  "integrate_simpson38 (\<lambda>x. Inr (jmul (jmul x x) x)) (Fin (- 1)) (Fin 1) 4 = Inr (Fin (3 / 64))"
  by (simp add: integrate_simpson38_def Let_def bnd_def jsub_def jnum_def upt_rec)

lemma simpson38_x2_4:
  "integrate_simpson38 (\<lambda>x. Inr (jmul x x)) (Fin 0) (Fin 2) 4 = Inr (Fin (43 / 16))"
  by (simp add: integrate_simpson38_def Let_def bnd_def jsub_def jnum_def upt_rec)

lemma exact_x3: "predefinedFunctions ''x^3'' = Some \<lparr>pf_func = (\<lambda>x. Inr (jmul (jmul x x) x)),
        pf_exact = (\<lambda>a b. jdiv (jsub (jpow b 4) (jpow a 4)) (Fin 4))\<rparr>"
  by (simp add: predefinedFunctions_def)

lemma jpow_Fin: "jpow (Fin x) k = Fin (x ^ k)"
  by (induction k) simp_all

text \<open>
  C3. For the predefined \<open>x^3\<close> on \<open>[-1, 1]\<close> the exact value is known: it is the
  number 0. Simpson 3/8 with four intervals succeeds with the value \<open>3/64\<close>, so the
  absolute error \<open>|approx - exact|\<close> is \<open>3/64\<close>. The record carries neither an
  absolute nor a relative error: the condition \<open>exactValue ? ... : null\<close>, which tests
  for an absent exact value, takes the number 0 for absent.
\<close>

theorem C3_exact_zero:
  "jabs (jsub (Fin (3 / 64)) (Fin 0)) = Fin (3 / 64) \<and>
   exactValue \<lparr>selectedFunction = ''x^3'', customFunction = [], lowerLimit = Fin (- 1),
      upperLimit = Fin 1, intervals = 4, selectedMethods = [''Simpson's 3/8''],
      currentFunc = (\<lambda>x. Inr (jmul (jmul x x) x)), calculationResults = [],
      shouldCalculate = True\<rparr> = Some (Fin 0) \<and>
   calculate_method (\<lambda>i. Fin 0)
     \<lparr>selectedFunction = ''x^3'', customFunction = [], lowerLimit = Fin (- 1),
      upperLimit = Fin 1, intervals = 4, selectedMethods = [''Simpson's 3/8''],
      currentFunc = (\<lambda>x. Inr (jmul (jmul x x) x)), calculationResults = [],
      shouldCalculate = True\<rparr> new_SimpsonsRule3By8
   = Some \<lparr>r_method = ''Simpson's 3/8'', r_value = Fin (3 / 64), r_color = ''#a21caf'',
       r_error = None, r_errorEstimate = None, r_relativeError = None,
       r_calculationError = None\<rparr>"
proof -
  define st where "st = \<lparr>selectedFunction = ''x^3'', customFunction = [], lowerLimit = Fin (- 1),
      upperLimit = Fin 1, intervals = 4, selectedMethods = [''Simpson's 3/8''],
      currentFunc = (\<lambda>x. Inr (jmul (jmul x x) x)), calculationResults = [],
      shouldCalculate = True\<rparr>"
  have ev: "exactValue st = Some (Fin 0)"
    by (simp add: st_def exactValue_def exact_x3 jpow_Fin jsub_def)
  have i: "integrate (\<lambda>i. Fin 0) new_SimpsonsRule3By8 (currentFunc st) (lowerLimit st)
      (upperLimit st) (intervals st) = Inr (Fin (3 / 64), new_SimpsonsRule3By8)"
    by (simp add: st_def integrate_def new_SimpsonsRule3By8_def simpson38_x3_4 bnd_def)
  have g: "getErrorEstimate new_SimpsonsRule3By8 (currentFunc st) (lowerLimit st)
      (upperLimit st) (intervals st) = Some None"
    by (simp add: getErrorEstimate_def new_SimpsonsRule3By8_def)
  have "calculate_method (\<lambda>i. Fin 0) st new_SimpsonsRule3By8
    = Some \<lparr>r_method = ''Simpson's 3/8'', r_value = Fin (3 / 64), r_color = ''#a21caf'',
       r_error = None, r_errorEstimate = None, r_relativeError = None,
       r_calculationError = None\<rparr>"
  proof -
    have nm: "name new_SimpsonsRule3By8 = ''Simpson's 3/8''"
      and cl: "color new_SimpsonsRule3By8 = ''#a21caf''"
      by (simp_all add: new_SimpsonsRule3By8_def)
    show ?thesis
      by (simp add: calculate_method_def i g ev Let_def if_truthy_def nm cl)
  qed
  with ev show ?thesis unfolding st_def by (simp add: jsub_def)
qed

lemma jabs_jdiv: "jabs (jdiv x y) = jdiv (jabs x) (jabs y)"
  by (cases x; cases y) (auto simp: inf_of_sign_def)

text \<open>
  Where the condition \<open>exactValue ? ... : null\<close> accepts the exact value and the
  callback returns a record without a failure, the record carries the absolute error
  \<open>|approx - exact|\<close> and the relative error \<open>(absolute error) / |exact| * 100\<close>.
\<close>

lemma errors_of_accepted_exact:
  assumes "exactValue st = Some e" and "truthy e"
    and "calculate_method random st m = Some r" and "r_calculationError r = None"
  shows "r_error r = Some (jabs (jsub (r_value r) e)) \<and>
         r_relativeError r = Some (jmul (jdiv (jabs (jsub (r_value r) e)) (jabs e)) (Fin 100))"
  using assms
  by (auto simp: calculate_method_def if_truthy_def jabs_jdiv Let_def
      split: sum.splits option.splits prod.splits)

lemma exact_x2: "predefinedFunctions ''x^2'' = Some \<lparr>pf_func = (\<lambda>x. Inr (jmul x x)),
        pf_exact = (\<lambda>a b. jdiv (jsub (jpow b 3) (jpow a 3)) (Fin 3))\<rparr>"
  by (simp add: predefinedFunctions_def)

lemma errors_of_accepted_exact_example:
  "exactValue \<lparr>selectedFunction = ''x^2'', customFunction = [], lowerLimit = Fin 0,
      upperLimit = Fin 2, intervals = 4, selectedMethods = [''Simpson's 3/8''],
      currentFunc = (\<lambda>x. Inr (jmul x x)), calculationResults = [],
      shouldCalculate = True\<rparr> = Some (Fin (8 / 3)) \<and>
   truthy (Fin (8 / 3)) \<and>
   (\<exists>r. calculate_method (\<lambda>i. Fin 0)
      \<lparr>selectedFunction = ''x^2'', customFunction = [], lowerLimit = Fin 0,
      upperLimit = Fin 2, intervals = 4, selectedMethods = [''Simpson's 3/8''],
      currentFunc = (\<lambda>x. Inr (jmul x x)), calculationResults = [],
      shouldCalculate = True\<rparr> new_SimpsonsRule3By8 = Some r \<and>
      r_calculationError r = None \<and> r_value r = Fin (43 / 16) \<and>
      r_error r = Some (Fin (1 / 48)) \<and> r_relativeError r = Some (Fin (25 / 32)))"
proof -
  define st where "st = \<lparr>selectedFunction = ''x^2'', customFunction = [], lowerLimit = Fin 0,
      upperLimit = Fin 2, intervals = 4, selectedMethods = [''Simpson's 3/8''],
      currentFunc = (\<lambda>x. Inr (jmul x x)), calculationResults = [],
      shouldCalculate = True\<rparr>"
  define r where "r = \<lparr>r_method = ''Simpson's 3/8'', r_value = Fin (43 / 16),
       r_color = ''#a21caf'', r_error = if_truthy (Some (Fin (8 / 3))) (\<lambda>e. jabs (jsub (Fin (43 / 16)) e)),
       r_errorEstimate = None,
       r_relativeError = if_truthy (Some (Fin (8 / 3)))
          (\<lambda>e. jmul (jabs (jdiv (jsub (Fin (43 / 16)) e) e)) (Fin 100)),
       r_calculationError = None\<rparr>"
  have ev: "exactValue st = Some (Fin (8 / 3))"
    by (simp add: st_def exactValue_def exact_x2 jpow_Fin jsub_def)
  have tr: "truthy (Fin (8 / 3))" by simp
  have i: "integrate (\<lambda>i. Fin 0) new_SimpsonsRule3By8 (currentFunc st) (lowerLimit st)
      (upperLimit st) (intervals st) = Inr (Fin (43 / 16), new_SimpsonsRule3By8)"
    by (simp add: st_def integrate_def new_SimpsonsRule3By8_def simpson38_x2_4 bnd_def)
  have g: "getErrorEstimate new_SimpsonsRule3By8 (currentFunc st) (lowerLimit st)
      (upperLimit st) (intervals st) = Some None"
    by (simp add: getErrorEstimate_def new_SimpsonsRule3By8_def)
  have nm: "name new_SimpsonsRule3By8 = ''Simpson's 3/8''"
    and cl: "color new_SimpsonsRule3By8 = ''#a21caf''"
    by (simp_all add: new_SimpsonsRule3By8_def)
  have cm: "calculate_method (\<lambda>i. Fin 0) st new_SimpsonsRule3By8 = Some r"
    by (simp add: calculate_method_def i g ev Let_def nm cl r_def)
  have ce: "r_calculationError r = None" and rv: "r_value r = Fin (43 / 16)"
    by (simp_all add: r_def)
  from errors_of_accepted_exact [OF ev tr cm ce]
  have "r_error r = Some (Fin (1 / 48))" and "r_relativeError r = Some (Fin (25 / 32))"
    by (simp_all add: rv jsub_def)
  with ev tr cm ce rv show ?thesis unfolding st_def by blast
qed

subsection \<open>The Monte Carlo cache\<close>

text \<open>
  C9. A Monte Carlo instance as the constructor leaves it has no \<open>lastSamples\<close>, and
  its \<open>getErrorEstimate\<close> returns \<open>null\<close> for every integrand, bounds and count.
  Only \<open>integrate\<close> assigns \<open>lastSamples\<close>.
\<close>

theorem C9_montecarlo_fresh:
  "lastSamples new_MonteCarloIntegration = None \<and>
   getErrorEstimate new_MonteCarloIntegration f a b n = Some None"
  by (simp add: getErrorEstimate_def getErrorEstimate_montecarlo_def new_MonteCarloIntegration_def)

section \<open>Properties of the expression compiler\<close>

lemma trim_blank: "\<forall>c\<in>set s. is_space c \<Longrightarrow> trim s = []"
proof -
  assume "\<forall>c\<in>set s. is_space c"
  then have d: "dropWhile is_space s = []" by simp
  show ?thesis unfolding trim_def d by simp
qed

text \<open>
  C7. The text \<open>e^x\<close> is rewritten to \<open>Math.E**x\<close>: the constant rule turns the
  \<open>e\<close> into \<open>Math.E\<close> before the rule for \<open>e^\<close> is tried, so that rule finds no
  lower-case \<open>e\<close> and the caret becomes the power operator applied to a constant.
\<close>

theorem C7_e_caret_x: "processed_of ''e^x'' = ''Math.E**x''"
  by code_simp

text \<open>The rule for \<open>e^\<close> still applies to an \<open>e\<close> that follows a word character, and
  leaves the name \<open>Math.exp\<close> without an argument list.\<close>

lemma e_caret_after_digit: "processed_of ''2e^x'' = ''2Math.expx''"
  by code_simp

lemma foldl_has_valid:
  "foldl (\<lambda>has x. if P x then True else has) b xs = (b \<or> (\<exists>x\<in>set xs. P x))"
  by (induction xs arbitrary: b) auto

lemma trim_not_blank: "\<exists>c\<in>set s. \<not> is_space c \<Longrightarrow> trim s \<noteq> []"
proof -
  assume a: "\<exists>c\<in>set s. \<not> is_space c"
  define t where "t = dropWhile is_space s"
  from a have t: "t \<noteq> []" unfolding t_def by (simp add: dropWhile_eq_Nil_conv)
  then have "\<not> is_space (hd t)" unfolding t_def by (rule hd_dropWhile)
  moreover from t have "hd t \<in> set (rev t)" by simp
  ultimately have "dropWhile is_space (rev t) \<noteq> []"
    by (auto simp: dropWhile_eq_Nil_conv)
  then show ?thesis by (simp add: trim_def t_def)
qed

lemma valid_point_iff:
  "valid_point testFunc x \<longleftrightarrow> (\<exists>r. testFunc x = Inr (Number (Fin r)))"
proof (cases "testFunc x")
  case (Inl e)
  then show ?thesis by (simp add: valid_point_def)
next
  case (Inr v)
  show ?thesis
  proof (cases v)
    case NotNumber
    with Inr show ?thesis by (simp add: valid_point_def)
  next
    case (Number testVal)
    with Inr show ?thesis by (cases testVal) (simp_all add: valid_point_def)
  qed
qed

text \<open>
  C8 (as amended). For a text that is not blank (it has a character that is not white
  space) and whose function body the host compiles to a callable, the result carries
  the processed text exactly when the callable returns a finite number at one at least
  of the probes 0.1, 1, 2, 3, 5. A probe at which the callable throws, or returns
  \<open>NaN\<close>, an infinity or a value that is not a number, does not count and does not
  stop the test. When no probe returns a finite number, the result has no processed
  text and carries the message of the domain error.
\<close>

theorem C8_compile_validation:
  assumes "\<exists>c\<in>set rawFunction. \<not> is_space c"
    and "new_Function (function_body (processed_of rawFunction)) = Inr testFunc"
  shows
   "(c_processed (processCustomFunction new_Function rawFunction) \<noteq> None \<longleftrightarrow>
       (\<exists>x\<in>{Fin 0.1, Fin 1, Fin 2, Fin 3, Fin 5}. \<exists>r. testFunc x = Inr (Number (Fin r)))) \<and>
    ((\<exists>x\<in>{Fin 0.1, Fin 1, Fin 2, Fin 3, Fin 5}. \<exists>r. testFunc x = Inr (Number (Fin r))) \<longrightarrow>
       processCustomFunction new_Function rawFunction
         = \<lparr>c_processed = Some (processed_of rawFunction), c_error = []\<rparr>) \<and>
    ((\<forall>x\<in>{Fin 0.1, Fin 1, Fin 2, Fin 3, Fin 5}. \<forall>r. testFunc x \<noteq> Inr (Number (Fin r))) \<longrightarrow>
       processCustomFunction new_Function rawFunction
         = \<lparr>c_processed = None,
            c_error = ''Function does not produce valid numeric results. Check your syntax and domain.''\<rparr>)"
proof -
  have T: "set testPoints = {Fin 0.1, Fin 1, Fin 2, Fin 3, Fin 5}"
    by (simp add: testPoints_def)
  have V: "(\<exists>x\<in>set testPoints. valid_point testFunc x) \<longleftrightarrow>
      (\<exists>x\<in>{Fin 0.1, Fin 1, Fin 2, Fin 3, Fin 5}. \<exists>r. testFunc x = Inr (Number (Fin r)))"
    unfolding T valid_point_iff ..
  have P: "processCustomFunction new_Function rawFunction =
     (if \<exists>x\<in>{Fin 0.1, Fin 1, Fin 2, Fin 3, Fin 5}. \<exists>r. testFunc x = Inr (Number (Fin r))
      then \<lparr>c_processed = Some (processed_of rawFunction), c_error = []\<rparr>
      else \<lparr>c_processed = None,
            c_error = ''Function does not produce valid numeric results. Check your syntax and domain.''\<rparr>)"
    using assms(2) trim_not_blank [OF assms(1)] unfolding V [symmetric]
    by (simp add: processCustomFunction_def Let_def bnd_def foldl_has_valid domain_message_def)
  show ?thesis
    unfolding P by auto
qed

theorem C8_compile_validation_witness:
  "\<not> is_space (CHR ''x'') \<and>
   processCustomFunction
     (\<lambda>body. Inr (\<lambda>x. if x = Fin 1 then Inr (Number (Fin 7))
                      else if x = Fin 5 then Inr (Number PInf)
                      else Inl (Error ''out of domain''))) ''x''
     = \<lparr>c_processed = Some ''x'', c_error = []\<rparr> \<and>
   processCustomFunction (\<lambda>body. Inr (\<lambda>x. Inl (Error ''out of domain''))) ''x''
     = \<lparr>c_processed = None,
        c_error = ''Function does not produce valid numeric results. Check your syntax and domain.''\<rparr> \<and>
   processCustomFunction (\<lambda>body. Inr (\<lambda>x. Inr (Number NaN))) ''x''
     = \<lparr>c_processed = None,
        c_error = ''Function does not produce valid numeric results. Check your syntax and domain.''\<rparr>"
proof -
  define f1 :: callable where "f1 = (\<lambda>x. if x = Fin 1 then Inr (Number (Fin 7))
                      else if x = Fin 5 then Inr (Number PInf)
                      else Inl (Error ''out of domain''))"
  define f2 :: callable where "f2 = (\<lambda>x. Inl (Error ''out of domain''))"
  define f3 :: callable where "f3 = (\<lambda>x. Inr (Number NaN))"
  have s: "\<not> is_space (CHR ''x'')" by (simp add: is_space_def)
  then have t: "\<exists>c\<in>set ''x''. \<not> is_space c" by simp
  have p: "processed_of ''x'' = ''x''" by code_simp
  have v1: "\<exists>x\<in>{Fin 0.1, Fin 1, Fin 2, Fin 3, Fin 5}. \<exists>r. f1 x = Inr (Number (Fin r))"
    by (simp add: f1_def)
  have v2: "\<forall>x\<in>{Fin 0.1, Fin 1, Fin 2, Fin 3, Fin 5}. \<forall>r. f2 x \<noteq> Inr (Number (Fin r))"
    by (simp add: f2_def)
  have v3: "\<forall>x\<in>{Fin 0.1, Fin 1, Fin 2, Fin 3, Fin 5}. \<forall>r. f3 x \<noteq> Inr (Number (Fin r))"
    by (simp add: f3_def)
  have a: "\<And>f. (\<lambda>body. Inr f) (function_body (processed_of ''x'')) = Inr (f :: callable)"
    by simp
  from C8_compile_validation [OF t a [of f1]] v1
  have r1: "processCustomFunction (\<lambda>body. Inr f1) ''x''
     = \<lparr>c_processed = Some (processed_of ''x''), c_error = []\<rparr>"
    by blast
  from C8_compile_validation [OF t a [of f2]] v2
  have r2: "processCustomFunction (\<lambda>body. Inr f2) ''x''
     = \<lparr>c_processed = None,
        c_error = ''Function does not produce valid numeric results. Check your syntax and domain.''\<rparr>"
    by blast
  from C8_compile_validation [OF t a [of f3]] v3
  have r3: "processCustomFunction (\<lambda>body. Inr f3) ''x''
     = \<lparr>c_processed = None,
        c_error = ''Function does not produce valid numeric results. Check your syntax and domain.''\<rparr>"
    by blast
  from s r1 r2 r3 show ?thesis unfolding p f1_def f2_def f3_def by blast
qed

text \<open>
  C8 (as stated) fails for a text that is not empty but blank. For a single space the
  emptiness test \<open>!rawFunction.trim()\<close> returns at once: the result has no processed
  text and the empty message, not the domain error, although the text is not empty, its
  rewritten form (the empty text, whose body \<open>return ;\<close> the host compiles to a
  callable that returns \<open>undefined\<close>) compiles, and no probe returns a finite number.
\<close>

theorem C8_blank_text:
  "[CHR 0x20] \<noteq> ([] :: string) \<and>
   processed_of [CHR 0x20] = [] \<and>
   processCustomFunction (\<lambda>body. Inr (\<lambda>x. Inr NotNumber)) [CHR 0x20]
     = \<lparr>c_processed = None, c_error = []\<rparr>"
proof -
  have "processed_of [CHR 0x20] = []" by code_simp
  moreover have "trim [CHR 0x20] = []" by (simp add: trim_def is_space_def)
  ultimately show ?thesis by (simp add: processCustomFunction_def)
qed

text \<open>
  C10. For a text that is empty or has white space only, the result has no processed
  text and the empty error message, whatever the host's \<open>Function\<close> constructor does.
\<close>

theorem C10_blank_input:
  "\<forall>c\<in>set rawFunction. is_space c \<Longrightarrow>
   processCustomFunction new_Function rawFunction = \<lparr>c_processed = None, c_error = []\<rparr>"
  by (simp add: processCustomFunction_def trim_blank)

theorem C10_blank_input_witness:
  "is_space (CHR 0x20) \<and> is_space (CHR 0x09) \<and>
   processCustomFunction (\<lambda>body. Inl (Error ''SyntaxError'')) [CHR 0x20, CHR 0x09]
     = \<lparr>c_processed = None, c_error = []\<rparr>"
  using C10_blank_input [of "[CHR 0x20, CHR 0x09]" "\<lambda>body. Inl (Error ''SyntaxError'')"]
  by (simp add: is_space_def)

end
